theory Spec2Isabelle
  imports Complex_Main
begin

section \<open>JavaScript numbers\<close>

text \<open>
  The coaching code computes with JavaScript numbers. A number is modelled as an exact
  real, or one of the three special values that division by zero produces: \<open>Infinity\<close>,
  \<open>-Infinity\<close> and \<open>NaN\<close>. Division never raises. Rounding to 64-bit precision is not
  modelled (arithmetic on finite values is exact, a decimal literal denotes its decimal
  value), and the negative zero is identified with zero: every divisor in the code below is
  a list length, a positive literal, or the quotient by a list length of a sum accumulated
  from the literal \<open>0\<close>, none of which is the negative zero in exact arithmetic.
\<close>

datatype jsnum = Fin real | PInf | NInf | NaN

fun jneg :: "jsnum \<Rightarrow> jsnum" where
  "jneg (Fin a) = Fin (- a)"
| "jneg PInf = NInf"
| "jneg NInf = PInf"
| "jneg NaN = NaN"

fun jadd :: "jsnum \<Rightarrow> jsnum \<Rightarrow> jsnum" where
  "jadd (Fin a) (Fin b) = Fin (a + b)"
| "jadd NaN y = NaN"
| "jadd x NaN = NaN"
| "jadd PInf NInf = NaN"
| "jadd NInf PInf = NaN"
| "jadd PInf y = PInf"
| "jadd x PInf = PInf"
| "jadd NInf y = NInf"
| "jadd x NInf = NInf"

definition jsub :: "jsnum \<Rightarrow> jsnum \<Rightarrow> jsnum" where
  "jsub x y = jadd x (jneg y)"

fun jscale :: "jsnum \<Rightarrow> real \<Rightarrow> jsnum" where
  "jscale PInf b = (if b = 0 then NaN else if 0 < b then PInf else NInf)"
| "jscale NInf b = (if b = 0 then NaN else if 0 < b then NInf else PInf)"
| "jscale NaN b = NaN"
| "jscale (Fin a) b = Fin (a * b)"

fun jmul :: "jsnum \<Rightarrow> jsnum \<Rightarrow> jsnum" where
  "jmul (Fin a) (Fin b) = Fin (a * b)"
| "jmul NaN y = NaN"
| "jmul x NaN = NaN"
| "jmul (Fin a) y = jscale y a"
| "jmul x (Fin b) = jscale x b"
| "jmul PInf PInf = PInf"
| "jmul PInf NInf = NInf"
| "jmul NInf PInf = NInf"
| "jmul NInf NInf = PInf"

fun jdiv :: "jsnum \<Rightarrow> jsnum \<Rightarrow> jsnum" where
  "jdiv (Fin a) (Fin b) =
     (if b = 0 then (if a = 0 then NaN else if 0 < a then PInf else NInf)
      else Fin (a / b))"
| "jdiv NaN y = NaN"
| "jdiv x NaN = NaN"
| "jdiv (Fin a) y = Fin 0"
| "jdiv PInf (Fin b) = (if 0 \<le> b then PInf else NInf)"
| "jdiv NInf (Fin b) = (if 0 \<le> b then NInf else PInf)"
| "jdiv x y = NaN"

fun jgt :: "jsnum \<Rightarrow> jsnum \<Rightarrow> bool" where
  "jgt (Fin a) (Fin b) = (b < a)"
| "jgt NaN y = False"
| "jgt x NaN = False"
| "jgt PInf PInf = False"
| "jgt PInf y = True"
| "jgt NInf y = False"
| "jgt x NInf = True"
| "jgt x PInf = False"

definition jlt :: "jsnum \<Rightarrow> jsnum \<Rightarrow> bool" where
  "jlt x y = jgt y x"

text \<open>\<open>Math.round\<close>: the nearest integer, a tie going up; the special values are kept.\<close>

fun Math_round :: "jsnum \<Rightarrow> jsnum" where
  "Math_round (Fin a) = Fin (of_int \<lfloor>a + 1 / 2\<rfloor>)"
| "Math_round x = x"

text \<open>
  \<open>xs.reduce((sum, v) => sum + f(v), 0)\<close>: the accumulator starts at the literal \<open>0\<close> and
  the elements are added from left to right.
\<close>

definition reduce_sum :: "('a \<Rightarrow> real) \<Rightarrow> 'a list \<Rightarrow> jsnum" where
  "reduce_sum f xs = fold (\<lambda>v sum. jadd sum (Fin (f v))) xs (Fin 0)"

text \<open>\<open>xs.slice(b, e)\<close> and \<open>xs.slice(b)\<close> for indices that are not negative.\<close>

definition slice :: "'a list \<Rightarrow> nat \<Rightarrow> nat \<Rightarrow> 'a list" where
  "slice xs b e = take (min e (length xs) - b) (drop b xs)"

definition slice_from :: "'a list \<Rightarrow> nat \<Rightarrow> 'a list" where
  "slice_from xs b = drop b xs"

section \<open>Trend calculator\<close>

text \<open>
  \<^verbatim>\<open>function calculateTrend(values)\<close> of the coaching routes. \<open>Math.floor(values.length / 2)\<close>
  is the integer quotient of the length.
\<close>

definition calculateTrend :: "real list \<Rightarrow> string" where
  "calculateTrend values =
     (if length values < 2 then ''stable''
      else
        let firstHalf = slice values 0 (length values div 2);
            secondHalf = slice_from values (length values div 2);
            firstAvg = jdiv (reduce_sum (\<lambda>val. val) firstHalf) (Fin (real (length firstHalf)));
            secondAvg = jdiv (reduce_sum (\<lambda>val. val) secondHalf) (Fin (real (length secondHalf)));
            change = jmul (jdiv (jsub secondAvg firstAvg) firstAvg) (Fin 100)
        in if jgt change (Fin 5) then ''improving''
           else if jlt change (Fin (- 5)) then ''declining''
           else ''stable'')"

text \<open>
  The trend calculator as the specification words it: the arithmetic mean of each half of
  the sequence split at \<open>n div 2\<close>, and the percent change of the second mean against the
  first. The quotient by the first mean is the JavaScript one, so that a zero baseline
  has a value as well.
\<close>

definition mean :: "real list \<Rightarrow> real" where
  "mean xs = sum_list xs / real (length xs)"

definition percent_change :: "real \<Rightarrow> real \<Rightarrow> jsnum" where
  "percent_change firstHalfMean secondHalfMean =
     jmul (jdiv (Fin (secondHalfMean - firstHalfMean)) (Fin firstHalfMean)) (Fin 100)"

definition classify_change :: "jsnum \<Rightarrow> string" where
  "classify_change change =
     (if jgt change (Fin 5) then ''improving''
      else if jlt change (Fin (- 5)) then ''declining''
      else ''stable'')"


section \<open>Trips, recommendations and insights\<close>

text \<open>
  A stored trip as the coaching code reads it. The numeric fields hold finite numbers; the
  nested objects are always present.
\<close>

record driving_behavior =
  harshAccelerations :: real
  harshBraking :: real
  harshCornering :: real
  speedingEvents :: real
  idleTime :: real
  rapidLaneChanges :: real

record route_info =
  route_type :: string

record weather_info =
  temperature :: real
  conditions :: string

record traffic_info =
  level :: string

record savings =
  fuel :: jsnum
  co2 :: jsnum

record recommendation =
  rec_type :: string
  priority :: string
  title :: string
  description :: string
  tips :: "string list"
  potentialSavings :: savings

record insight =
  ins_type :: string
  message :: string
  impact :: string
  fuelSavings :: jsnum
  co2Savings :: jsnum
  timestamp :: nat

record trip =
  trip_id :: string
  userId :: string
  distance :: real
  duration :: real
  averageSpeed :: real
  maxSpeed :: real
  ecoScore :: real
  route :: route_info
  weather :: weather_info
  traffic :: traffic_info
  drivingBehavior :: driving_behavior
  insights :: "insight list"

datatype error = TypeError | ValueError | DatabaseError

section \<open>Recommendation generator\<close>

text \<open>
  \<^verbatim>\<open>generateRecommendations\<close>. The argument is the outcome of the query for the user's
  trips of the last seven days (at most ten, newest first): the list found, or the error
  with which the query rejects, which the function does not catch. Each \<open>push\<close> appends to
  the list built so far.
\<close>

definition generateRecommendations :: "error + trip list \<Rightarrow> error + recommendation list" where
  "generateRecommendations found =
     (case found of
        Inl e \<Rightarrow> Inl e
      | Inr recentTrips \<Rightarrow>
          let recommendations = [];
              avgHarshAccelerations =
                jdiv (reduce_sum (\<lambda>trip. harshAccelerations (drivingBehavior trip)) recentTrips)
                     (Fin (real (length recentTrips)));
              recommendations =
                (if jgt avgHarshAccelerations (Fin 3) then
                   recommendations @
                   [\<lparr>rec_type = ''acceleration'',
                     priority = ''high'',
                     title = ''Smooth Acceleration'',
                     description =
                       ''Reduce harsh accelerations to improve fuel efficiency by up to 15%'',
                     tips = [''Gradually press the accelerator pedal'',
                             ''Anticipate traffic flow to avoid sudden stops'',
                             ''Use cruise control on highways when possible''],
                     potentialSavings =
                       \<lparr>fuel = jmul avgHarshAccelerations (Fin (1 / 10)),
                        co2 = jmul avgHarshAccelerations (Fin (25 / 100))\<rparr>\<rparr>]
                 else recommendations);
              avgMaxSpeed =
                jdiv (reduce_sum (\<lambda>trip. maxSpeed trip) recentTrips)
                     (Fin (real (length recentTrips)));
              recommendations =
                (if jgt avgMaxSpeed (Fin 100) then
                   recommendations @
                   [\<lparr>rec_type = ''speed'',
                     priority = ''medium'',
                     title = ''Speed Management'',
                     description =
                       ''Maintaining optimal speeds can significantly improve fuel efficiency'',
                     tips = [''Stay within speed limits'',
                             ''Use cruise control on highways'',
                             ''Avoid rapid speed changes''],
                     potentialSavings = \<lparr>fuel = Fin (2 / 10), co2 = Fin (5 / 10)\<rparr>\<rparr>]
                 else recommendations);
              avgIdleTime =
                jdiv (reduce_sum (\<lambda>trip. idleTime (drivingBehavior trip)) recentTrips)
                     (Fin (real (length recentTrips)));
              recommendations =
                (if jgt avgIdleTime (Fin 180) then
                   recommendations @
                   [\<lparr>rec_type = ''idling'',
                     priority = ''medium'',
                     title = ''Reduce Idle Time'',
                     description =
                       ''Turn off your engine when parked to save fuel and reduce emissions'',
                     tips = [''Turn off engine at long traffic lights'',
                             ''Avoid warming up engine for extended periods'',
                             ''Use remote start sparingly''],
                     potentialSavings =
                       \<lparr>fuel = jmul (jdiv avgIdleTime (Fin 60)) (Fin (1 / 10)),
                        co2 = jmul (jdiv avgIdleTime (Fin 60)) (Fin (25 / 100))\<rparr>\<rparr>]
                 else recommendations)
          in Inr recommendations)"





section \<open>Feature extraction\<close>

text \<open>\<^verbatim>\<open>extractEfficiencyFeatures\<close>, \<^verbatim>\<open>extractBehaviorFeatures\<close>, \<^verbatim>\<open>extractRouteFeatures\<close>.\<close>

definition extractEfficiencyFeatures :: "trip \<Rightarrow> real list" where
  "extractEfficiencyFeatures tripData =
     [distance tripData / 100,
      duration tripData / 3600,
      averageSpeed tripData / 100,
      maxSpeed tripData / 150,
      harshAccelerations (drivingBehavior tripData) / 10,
      harshBraking (drivingBehavior tripData) / 10,
      idleTime (drivingBehavior tripData) / 600,
      (if route_type (route tripData) = ''city'' then 1 else 0),
      (if route_type (route tripData) = ''highway'' then 1 else 0),
      temperature (weather tripData) / 50]"

definition extractBehaviorFeatures :: "trip \<Rightarrow> real list" where
  "extractBehaviorFeatures tripData =
     [harshAccelerations (drivingBehavior tripData) / 10,
      harshBraking (drivingBehavior tripData) / 10,
      harshCornering (drivingBehavior tripData) / 10,
      speedingEvents (drivingBehavior tripData) / 10,
      idleTime (drivingBehavior tripData) / 600,
      rapidLaneChanges (drivingBehavior tripData) / 10,
      averageSpeed tripData / 100,
      maxSpeed tripData / 150]"

definition extractRouteFeatures :: "trip \<Rightarrow> real list" where
  "extractRouteFeatures tripData =
     [distance tripData / 100,
      duration tripData / 3600,
      (if level (traffic tripData) = ''heavy'' then 1 else 0),
      (if level (traffic tripData) = ''congested'' then 1 else 0),
      (if route_type (route tripData) = ''city'' then 1 else 0),
      (if conditions (weather tripData) = ''rainy'' then 1 else 0)]"

section \<open>Rule-based helpers of the analyzers\<close>

definition identifyEfficiencyFactors :: "trip \<Rightarrow> string list" where
  "identifyEfficiencyFactors tripData =
     (let factors = [];
          factors = (if 5 < harshAccelerations (drivingBehavior tripData)
                     then factors @ [''High harsh acceleration count''] else factors);
          factors = (if 3 < harshBraking (drivingBehavior tripData)
                     then factors @ [''Frequent harsh braking''] else factors);
          factors = (if 120 < maxSpeed tripData
                     then factors @ [''High speed driving''] else factors);
          factors = (if 300 < idleTime (drivingBehavior tripData)
                     then factors @ [''Excessive idling''] else factors);
          factors = (if route_type (route tripData) = ''city'' \<and> averageSpeed tripData < 30
                     then factors @ [''Heavy city traffic''] else factors)
      in factors)"

text \<open>\<^verbatim>\<open>calculateEfficiencyImprovement\<close>; \<open>Math.min\<close> of two finite numbers is \<open>min\<close>.\<close>

definition calculateEfficiencyImprovement :: "trip \<Rightarrow> real" where
  "calculateEfficiencyImprovement tripData =
     (let improvement = 0;
          improvement = improvement + harshAccelerations (drivingBehavior tripData) * (15 / 100);
          improvement = improvement + harshBraking (drivingBehavior tripData) * (12 / 100);
          improvement = (if 100 < maxSpeed tripData
                         then improvement + (maxSpeed tripData - 100) * (1 / 100)
                         else improvement);
          improvement = improvement + idleTime (drivingBehavior tripData) / 60 * (1 / 10)
      in min improvement 30)"

definition getBehaviorDetails :: "trip \<Rightarrow> (string \<times> string) list" where
  "getBehaviorDetails tripData =
     [(''accelerationPattern'',
         if 5 < harshAccelerations (drivingBehavior tripData) then ''aggressive'' else ''smooth''),
      (''brakingPattern'',
         if 3 < harshBraking (drivingBehavior tripData) then ''harsh'' else ''smooth''),
      (''speedPattern'', if 120 < maxSpeed tripData then ''high_speed'' else ''moderate''),
      (''idlingPattern'',
         if 300 < idleTime (drivingBehavior tripData) then ''excessive'' else ''minimal'')]"

record optimization =
  opt_type :: string
  opt_description :: string
  opt_fuel :: real
  opt_time :: real

definition suggestRouteOptimizations :: "trip \<Rightarrow> optimization list" where
  "suggestRouteOptimizations tripData =
     (let optimizations = [];
          optimizations =
            (if level (traffic tripData) = ''heavy'' \<or> level (traffic tripData) = ''congested''
             then optimizations @
                  [\<lparr>opt_type = ''traffic_avoidance'',
                    opt_description = ''Consider alternative routes to avoid heavy traffic'',
                    opt_fuel = 15 / 100, opt_time = 2 / 10\<rparr>]
             else optimizations);
          optimizations =
            (if route_type (route tripData) = ''city'' \<and> 20 < distance tripData
             then optimizations @
                  [\<lparr>opt_type = ''route_optimization'',
                    opt_description =
                      ''Highway routes may be more efficient for longer distances'',
                    opt_fuel = 1 / 10, opt_time = 15 / 100\<rparr>]
             else optimizations)
      in optimizations)"

text \<open>A trip for the worked examples: a short city trip, every count zero.\<close>

definition quiet_trip :: trip where
  "quiet_trip =
     \<lparr>trip_id = ''t1'', userId = ''u1'', distance = 12, duration = 1800, averageSpeed = 24,
      maxSpeed = 50, ecoScore = 80,
      route = \<lparr>route_type = ''city''\<rparr>,
      weather = \<lparr>temperature = 20, conditions = ''clear''\<rparr>,
      traffic = \<lparr>level = ''light''\<rparr>,
      drivingBehavior =
        \<lparr>harshAccelerations = 0, harshBraking = 0, harshCornering = 0, speedingEvents = 0,
         idleTime = 0, rapidLaneChanges = 0\<rparr>,
      insights = []\<rparr>"

definition window_trip :: "real \<Rightarrow> real \<Rightarrow> real \<Rightarrow> trip" where
  "window_trip ha ms idle =
     quiet_trip\<lparr>maxSpeed := ms,
                drivingBehavior :=
                  (drivingBehavior quiet_trip)\<lparr>harshAccelerations := ha, idleTime := idle\<rparr>\<rparr>"

section \<open>The prediction models\<close>

text \<open>
  The service builds three sequential networks of dense layers with the layer sizes and
  activations written below. The source fixes the architecture only; the kernels and
  biases are whatever the library holds for a layer (its initial draw, or trained values),
  so they are parameters here. A dense layer computes, for each of its units, the
  activation of the weighted sum of its inputs plus the bias; dropout is the identity
  when predicting. \<open>predict\<close> rejects an input whose length is not the declared input shape.
\<close>

datatype activation = Relu | Linear | Sigmoid | Softmax

record weights =
  kernel :: "nat \<Rightarrow> nat \<Rightarrow> real"
  bias :: "nat \<Rightarrow> real"

datatype layer = Dense nat activation weights | Dropout real

record model =
  inputShape :: nat
  layers :: "layer list"

fun activate :: "activation \<Rightarrow> real list \<Rightarrow> real list" where
  "activate Relu zs = map (max 0) zs"
| "activate Linear zs = zs"
| "activate Sigmoid zs = map (\<lambda>z. 1 / (1 + exp (- z))) zs"
| "activate Softmax zs = map (\<lambda>z. exp z / sum_list (map exp zs)) zs"

definition weighted_sum :: "weights \<Rightarrow> real list \<Rightarrow> nat \<Rightarrow> real" where
  "weighted_sum w x j = sum_list (map (\<lambda>i. x ! i * kernel w i j) [0..<length x]) + bias w j"

definition dense :: "nat \<Rightarrow> activation \<Rightarrow> weights \<Rightarrow> real list \<Rightarrow> real list" where
  "dense units act w x = activate act (map (weighted_sum w x) [0..<units])"

fun apply_layer :: "layer \<Rightarrow> real list \<Rightarrow> real list" where
  "apply_layer (Dense units act w) x = dense units act w x"
| "apply_layer (Dropout rate) x = x"

definition predict :: "model \<Rightarrow> real list \<Rightarrow> error + real list" where
  "predict m x =
     (if length x \<noteq> inputShape m then Inl ValueError
      else Inr (fold apply_layer (layers m) x))"

text \<open>\<^verbatim>\<open>loadEfficiencyModel\<close>, \<^verbatim>\<open>loadBehaviorModel\<close>, \<^verbatim>\<open>loadRouteOptimizationModel\<close>.\<close>

definition loadEfficiencyModel :: "weights \<Rightarrow> weights \<Rightarrow> weights \<Rightarrow> model" where
  "loadEfficiencyModel w1 w2 w3 =
     \<lparr>inputShape = 10,
      layers = [Dense 64 Relu w1, Dropout (2 / 10), Dense 32 Relu w2, Dense 1 Linear w3]\<rparr>"

definition loadBehaviorModel :: "weights \<Rightarrow> weights \<Rightarrow> weights \<Rightarrow> model" where
  "loadBehaviorModel w1 w2 w3 =
     \<lparr>inputShape = 8,
      layers = [Dense 32 Relu w1, Dense 16 Relu w2, Dense 4 Softmax w3]\<rparr>"

definition loadRouteOptimizationModel :: "weights \<Rightarrow> weights \<Rightarrow> weights \<Rightarrow> model" where
  "loadRouteOptimizationModel w1 w2 w3 =
     \<lparr>inputShape = 6,
      layers = [Dense 24 Relu w1, Dense 12 Relu w2, Dense 1 Sigmoid w3]\<rparr>"

section \<open>The coaching service\<close>

record model_registry =
  efficiency :: "model option"
  behavior :: "model option"
  routeOptimization :: "model option"

record service =
  models :: model_registry
  isInitialized :: bool

text \<open>The service as constructed: no model, not initialised.\<close>

definition new_service :: service where
  "new_service =
     \<lparr>models = \<lparr>efficiency = None, behavior = None, routeOptimization = None\<rparr>,
      isInitialized = False\<rparr>"

record initial_weights =
  efficiency1 :: weights
  efficiency2 :: weights
  efficiency3 :: weights
  behavior1 :: weights
  behavior2 :: weights
  behavior3 :: weights
  route1 :: weights
  route2 :: weights
  route3 :: weights

definition initialize :: "initial_weights \<Rightarrow> service \<Rightarrow> service" where
  "initialize ws svc =
     svc\<lparr>models :=
           \<lparr>efficiency =
              Some (loadEfficiencyModel (efficiency1 ws) (efficiency2 ws) (efficiency3 ws)),
            behavior = Some (loadBehaviorModel (behavior1 ws) (behavior2 ws) (behavior3 ws)),
            routeOptimization =
              Some (loadRouteOptimizationModel (route1 ws) (route2 ws) (route3 ws))\<rparr>,
         isInitialized := True\<rparr>"

text \<open>
  \<open>this.models.m.predict(tensor)\<close> followed by \<open>prediction.data()\<close>: a model that was never
  loaded is \<open>undefined\<close>, and calling its method raises a type error.
\<close>

definition model_predict :: "model option \<Rightarrow> real list \<Rightarrow> error + real list" where
  "model_predict mo x = (case mo of None \<Rightarrow> Inl TypeError | Some m \<Rightarrow> predict m x)"

text \<open>\<open>xs[i]\<close> used as a number: an index out of range reads \<open>undefined\<close>, which is \<open>NaN\<close>.\<close>

definition js_num_at :: "real list \<Rightarrow> nat \<Rightarrow> jsnum" where
  "js_num_at xs i = (if i < length xs then Fin (xs ! i) else NaN)"

text \<open>\<open>xs[i]\<close> for an integer index: \<open>undefined\<close> out of range, also at \<open>-1\<close>.\<close>

definition js_at :: "'a list \<Rightarrow> int \<Rightarrow> 'a option" where
  "js_at xs i = (if 0 \<le> i \<and> i < int (length xs) then Some (xs ! nat i) else None)"

text \<open>\<open>Math.max(...xs)\<close>, which is \<open>-Infinity\<close> for no arguments.\<close>

definition Math_max :: "real list \<Rightarrow> jsnum" where
  "Math_max xs = fold (\<lambda>x m. if jgt (Fin x) m then Fin x else m) xs NInf"

text \<open>\<open>xs.indexOf(v)\<close>: the first index holding \<open>v\<close>, or \<open>-1\<close>.\<close>

fun indexOf_from :: "real list \<Rightarrow> jsnum \<Rightarrow> int \<Rightarrow> int" where
  "indexOf_from [] v i = - 1"
| "indexOf_from (x # xs) v i = (if Fin x = v then i else indexOf_from xs v (i + 1))"

definition indexOf :: "real list \<Rightarrow> jsnum \<Rightarrow> int" where
  "indexOf xs v = indexOf_from xs v 0"

record efficiency_result =
  score :: jsnum
  factors :: "string list"
  improvement :: real

record behavior_result =
  behavior_type :: "string option"
  confidence :: "real option"
  details :: "(string \<times> string) list"

record route_result =
  route_efficiency :: jsnum
  optimization :: "optimization list"
  alternatives :: "string list"

definition findAlternativeRoutes :: "trip \<Rightarrow> string list" where
  "findAlternativeRoutes tripData = []"

text \<open>
  \<^verbatim>\<open>analyzeEfficiency\<close>: the \<open>try\<close> block, and the function with its \<open>catch\<close>, which
  answers the neutral result for any error of the block.
\<close>

definition analyzeEfficiency_try :: "service \<Rightarrow> trip \<Rightarrow> error + efficiency_result" where
  "analyzeEfficiency_try svc tripData =
     (let features = extractEfficiencyFeatures tripData
      in case model_predict (efficiency (models svc)) features of
           Inl e \<Rightarrow> Inl e
         | Inr efficiencyScore \<Rightarrow>
             Inr \<lparr>score = Math_round (jmul (js_num_at efficiencyScore 0) (Fin 100)),
                  factors = identifyEfficiencyFactors tripData,
                  improvement = calculateEfficiencyImprovement tripData\<rparr>)"

definition analyzeEfficiency :: "service \<Rightarrow> trip \<Rightarrow> error + efficiency_result" where
  "analyzeEfficiency svc tripData =
     (case analyzeEfficiency_try svc tripData of
        Inr result \<Rightarrow> Inr result
      | Inl e \<Rightarrow> Inr \<lparr>score = Fin 0, factors = [], improvement = 0\<rparr>)"

definition behaviorTypes :: "string list" where
  "behaviorTypes = [''eco_friendly'', ''moderate'', ''aggressive'', ''very_aggressive'']"

definition analyzeBehavior_try :: "service \<Rightarrow> trip \<Rightarrow> error + behavior_result" where
  "analyzeBehavior_try svc tripData =
     (let features = extractBehaviorFeatures tripData
      in case model_predict (behavior (models svc)) features of
           Inl e \<Rightarrow> Inl e
         | Inr behaviorScores \<Rightarrow>
             let maxIndex = indexOf behaviorScores (Math_max behaviorScores)
             in Inr \<lparr>behavior_type = js_at behaviorTypes maxIndex,
                     confidence = js_at behaviorScores maxIndex,
                     details = getBehaviorDetails tripData\<rparr>)"

definition analyzeBehavior :: "service \<Rightarrow> trip \<Rightarrow> error + behavior_result" where
  "analyzeBehavior svc tripData =
     (case analyzeBehavior_try svc tripData of
        Inr result \<Rightarrow> Inr result
      | Inl e \<Rightarrow> Inr \<lparr>behavior_type = Some ''moderate'', confidence = Some (5 / 10),
                       details = []\<rparr>)"

definition analyzeRoute_try :: "service \<Rightarrow> trip \<Rightarrow> error + route_result" where
  "analyzeRoute_try svc tripData =
     (let features = extractRouteFeatures tripData
      in case model_predict (routeOptimization (models svc)) features of
           Inl e \<Rightarrow> Inl e
         | Inr routeScore \<Rightarrow>
             Inr \<lparr>route_efficiency = Math_round (jmul (js_num_at routeScore 0) (Fin 100)),
                  optimization = suggestRouteOptimizations tripData,
                  alternatives = findAlternativeRoutes tripData\<rparr>)"

definition analyzeRoute :: "service \<Rightarrow> trip \<Rightarrow> error + route_result" where
  "analyzeRoute svc tripData =
     (case analyzeRoute_try svc tripData of
        Inr result \<Rightarrow> Inr result
      | Inl e \<Rightarrow> Inr \<lparr>route_efficiency = Fin 50, optimization = [], alternatives = []\<rparr>)"

record analysis =
  an_efficiency :: efficiency_result
  an_behavior :: behavior_result
  an_route :: route_result
  recommendations :: "recommendation list"

text \<open>
  \<^verbatim>\<open>analyzeTrip\<close>: initialises the service on first use, then runs the three analyzers and
  the recommendation generator; an error of any of them is thrown on. The result comes
  with the service as it is afterwards.
\<close>

definition analyzeTrip ::
  "initial_weights \<Rightarrow> service \<Rightarrow> error + trip list \<Rightarrow> trip \<Rightarrow> (error + analysis) \<times> service" where
  "analyzeTrip ws svc found tripData =
     (let svc = (if \<not> isInitialized svc then initialize ws svc else svc);
          result =
            (case analyzeEfficiency svc tripData of
               Inl e \<Rightarrow> Inl e
             | Inr eff \<Rightarrow>
                 (case analyzeBehavior svc tripData of
                    Inl e \<Rightarrow> Inl e
                  | Inr beh \<Rightarrow>
                      (case analyzeRoute svc tripData of
                         Inl e \<Rightarrow> Inl e
                       | Inr rt \<Rightarrow>
                           (case generateRecommendations found of
                              Inl e \<Rightarrow> Inl e
                            | Inr recs \<Rightarrow>
                                Inr \<lparr>an_efficiency = eff, an_behavior = beh, an_route = rt,
                                     recommendations = recs\<rparr>))))
      in (result, svc))"

section \<open>The route that analyses a trip\<close>

text \<open>
  \<^verbatim>\<open>router.post('/analyze-trip')\<close>. The trip store maps the identifier of a trip to its
  document; \<open>findOne\<close> answers the document with this identifier if it belongs to the user.
  The handler answers 400 for an identifier that fails validation, 404 for no trip, 500
  when the analysis throws; otherwise it assigns the insights of the trip, saves it and
  answers 200. \<open>now\<close> is the time at which the insights are made.
\<close>

definition insight_of :: "nat \<Rightarrow> recommendation \<Rightarrow> insight" where
  "insight_of now rec =
     \<lparr>ins_type = rec_type rec,
      message = description rec,
      impact = (if jgt (fuel (potentialSavings rec)) (Fin 0) then ''positive'' else ''negative''),
      fuelSavings = fuel (potentialSavings rec),
      co2Savings = co2 (potentialSavings rec),
      timestamp = now\<rparr>"

definition findOne :: "(string \<rightharpoonup> trip) \<Rightarrow> string \<Rightarrow> string \<Rightarrow> trip option" where
  "findOne store tripId uid =
     (case store tripId of
        None \<Rightarrow> None
      | Some t \<Rightarrow> if userId t = uid then Some t else None)"

definition analyze_trip_route ::
  "(string \<Rightarrow> bool) \<Rightarrow> initial_weights \<Rightarrow> nat \<Rightarrow> error + trip list \<Rightarrow>
   service \<times> (string \<rightharpoonup> trip) \<Rightarrow> string \<Rightarrow> string \<Rightarrow> nat \<times> service \<times> (string \<rightharpoonup> trip)" where
  "analyze_trip_route isMongoId ws now found state tripId uid =
     (let svc = fst state; store = snd state
      in if \<not> isMongoId tripId then (400, svc, store)
         else case findOne store tripId uid of
                None \<Rightarrow> (404, svc, store)
              | Some t \<Rightarrow>
                  (case analyzeTrip ws svc found t of
                     (Inl e, svc') \<Rightarrow> (500, svc', store)
                   | (Inr an, svc') \<Rightarrow>
                       let t' = t\<lparr>insights := map (insight_of now) (recommendations an)\<rparr>
                       in (200, svc', store(tripId \<mapsto> t'))))"

text \<open>Weights for the worked examples: one path through the first unit of each layer.\<close>

definition single_path :: "real \<Rightarrow> weights" where
  "single_path c = \<lparr>kernel = (\<lambda>i j. if i = 0 \<and> j = 0 then c else 0), bias = (\<lambda>j. 0)\<rparr>"

definition example_weights :: "real \<Rightarrow> initial_weights" where
  "example_weights c =
     \<lparr>efficiency1 = single_path (1 / 4), efficiency2 = single_path (1 / 5),
      efficiency3 = single_path c,
      behavior1 = single_path (1 / 4), behavior2 = single_path (1 / 5),
      behavior3 = single_path (1 / 4),
      route1 = single_path (1 / 4), route2 = single_path (1 / 5),
      route3 = single_path (1 / 4)\<rparr>"

definition old_insight :: insight where
  "old_insight =
     \<lparr>ins_type = ''speed'', message = ''recorded earlier'', impact = ''positive'',
      fuelSavings = Fin (2 / 10), co2Savings = Fin (5 / 10), timestamp = 1\<rparr>"

definition accept_all :: "string \<Rightarrow> bool" where
  "accept_all tripId = True"

definition example_store :: "string \<rightharpoonup> trip" where
  "example_store = [''t1'' \<mapsto> quiet_trip\<lparr>insights := [old_insight]\<rparr>]"

section \<open>Facts about the arithmetic\<close>

lemma fold_jadd_Fin:
  "fold (\<lambda>v sum. jadd sum (Fin (f v))) xs (Fin a) = Fin (a + sum_list (map f xs))"
  by (induction xs arbitrary: a) (simp_all add: add.assoc)

lemma reduce_sum_Fin: "reduce_sum f xs = Fin (sum_list (map f xs))"
  by (simp add: reduce_sum_def fold_jadd_Fin)

lemma slice_0: "slice xs 0 e = take e xs"
  by (simp add: slice_def min_def)

lemma average_nonempty:
  "xs \<noteq> [] \<Longrightarrow> jdiv (reduce_sum f xs) (Fin (real (length xs))) = Fin (mean (map f xs))"
  by (simp add: reduce_sum_Fin mean_def)

lemma calculateTrend_unfold:
  assumes "2 \<le> length values"
  shows "calculateTrend values =
           classify_change
             (percent_change (mean (take (length values div 2) values))
                             (mean (drop (length values div 2) values)))"
proof -
  let ?k = "length values div 2"
  have k: "0 < ?k" "?k < length values" using assms by auto
  have ne1: "take ?k values \<noteq> []" using k by auto
  have ne2: "drop ?k values \<noteq> []" using k by auto
  have a1: "jdiv (reduce_sum (\<lambda>val. val) (take ?k values))
                 (Fin (real (length (take ?k values)))) = Fin (mean (take ?k values))"
    using average_nonempty [OF ne1, of "\<lambda>val. val"] by simp
  have a2: "jdiv (reduce_sum (\<lambda>val. val) (drop ?k values))
                 (Fin (real (length (drop ?k values)))) = Fin (mean (drop ?k values))"
    using average_nonempty [OF ne2, of "\<lambda>val. val"] by simp
  have "\<not> length values < 2" using assms by simp
  then show ?thesis
    unfolding calculateTrend_def Let_def slice_0 slice_from_def a1 a2
    by (simp add: classify_change_def percent_change_def jsub_def)
qed

section \<open>Trend calculator: the claims\<close>



text \<open>
  What the calculator answers on every zero baseline: it never fails, and its answer
  follows the sign of the second-half mean, \<open>improving\<close> when it is positive, \<open>declining\<close>
  when it is negative, \<open>stable\<close> when it is zero.
\<close>

lemma calculateTrend_on_zero_baseline:
  assumes "2 \<le> length values"
    and "mean (take (length values div 2) values) = 0"
  shows "calculateTrend values =
           (if 0 < mean (drop (length values div 2) values) then ''improving''
            else if mean (drop (length values div 2) values) < 0 then ''declining''
            else ''stable'')"
  using calculateTrend_unfold [OF assms(1)] assms(2)
  by (simp add: classify_change_def percent_change_def jlt_def)

lemma calculateTrend_on_zero_baseline_example:
  "2 \<le> length [0, 0, - 2, - 4 :: real]
   \<and> mean (take (length [0, 0, - 2, - 4 :: real] div 2) [0, 0, - 2, - 4]) = 0
   \<and> calculateTrend [0, 0, - 2, - 4] = ''declining''"
  using calculateTrend_on_zero_baseline [of "[0, 0, - 2, - 4]"]
  by (simp add: mean_def)

section \<open>Recommendation generator: the claims\<close>





text \<open>
  C2. On an empty window the generator returns the empty list and raises nothing: each
  average is the quotient of 0 by 0, which is \<open>NaN\<close>, and no comparison with \<open>NaN\<close> holds.
\<close>

theorem generateRecommendations_empty_window:
  "generateRecommendations (Inr []) = Inr []
   \<and> jdiv (reduce_sum metric ([] :: trip list)) (Fin (real (length ([] :: trip list)))) = NaN
   \<and> \<not> jgt NaN (Fin 3) \<and> \<not> jgt NaN (Fin 100) \<and> \<not> jgt NaN (Fin 180)"
  by (simp add: generateRecommendations_def reduce_sum_def)




section \<open>Feature extraction and the improvement estimate: the claims\<close>

text \<open>
  C8. For every trip the efficiency features are the ten quotients and indicators of the
  specification, in its order: distance by 100, duration by 3600, average speed by 100,
  maximal speed by 150, harsh accelerations by 10, harsh braking by 10, idle time by 600,
  the city indicator, the highway indicator, temperature by 50. Nothing is clamped: a
  distance above 100 gives a first feature above 1.
\<close>

theorem extractEfficiencyFeatures_vector:
  "extractEfficiencyFeatures tripData =
     [distance tripData / 100, duration tripData / 3600, averageSpeed tripData / 100,
      maxSpeed tripData / 150, harshAccelerations (drivingBehavior tripData) / 10,
      harshBraking (drivingBehavior tripData) / 10, idleTime (drivingBehavior tripData) / 600,
      of_bool (route_type (route tripData) = ''city''),
      of_bool (route_type (route tripData) = ''highway''),
      temperature (weather tripData) / 50]
   \<and> length (extractEfficiencyFeatures tripData) = 10
   \<and> extractEfficiencyFeatures tripData ! 7 \<in> {0, 1}
   \<and> extractEfficiencyFeatures tripData ! 8 \<in> {0, 1}
   \<and> (100 < distance tripData \<longrightarrow> 1 < extractEfficiencyFeatures tripData ! 0)"
  by (simp add: extractEfficiencyFeatures_def)

theorem extractEfficiencyFeatures_vector_witness:
  "100 < distance (quiet_trip\<lparr>distance := 250\<rparr>)
   \<and> extractEfficiencyFeatures (quiet_trip\<lparr>distance := 250\<rparr>)
       = [5 / 2, 1 / 2, 6 / 25, 1 / 3, 0, 0, 0, 1, 0, 2 / 5]
   \<and> 1 < extractEfficiencyFeatures (quiet_trip\<lparr>distance := 250\<rparr>) ! 0"
  using extractEfficiencyFeatures_vector [of "quiet_trip\<lparr>distance := 250\<rparr>"]
  by (simp add: quiet_trip_def)

text \<open>
  C10. For a trip whose harsh accelerations, harsh brakings and idle time are not negative
  (the behaviour counts the estimate reads), the improvement estimate is between 0 and
  30: it is the sum of 0.15 per harsh acceleration, 0.12 per harsh braking, 0.01 per km/h
  of maximal speed above 100 and 0.1 per minute of idle time, capped at 30.
\<close>

theorem calculateEfficiencyImprovement_bounds:
  assumes "0 \<le> harshAccelerations (drivingBehavior tripData)"
    and "0 \<le> harshBraking (drivingBehavior tripData)"
    and "0 \<le> idleTime (drivingBehavior tripData)"
  shows "0 \<le> calculateEfficiencyImprovement tripData
     \<and> calculateEfficiencyImprovement tripData \<le> 30
     \<and> calculateEfficiencyImprovement tripData =
         min (harshAccelerations (drivingBehavior tripData) * (15 / 100)
              + harshBraking (drivingBehavior tripData) * (12 / 100)
              + (if 100 < maxSpeed tripData then (maxSpeed tripData - 100) * (1 / 100) else 0)
              + idleTime (drivingBehavior tripData) / 60 * (1 / 10)) 30"
  using assms by (simp add: calculateEfficiencyImprovement_def Let_def)

theorem calculateEfficiencyImprovement_bounds_witness:
  "0 \<le> harshAccelerations (drivingBehavior (window_trip 2 120 60))
   \<and> 0 \<le> harshBraking (drivingBehavior (window_trip 2 120 60))
   \<and> 0 \<le> idleTime (drivingBehavior (window_trip 2 120 60))
   \<and> calculateEfficiencyImprovement (window_trip 2 120 60) = 3 / 5
   \<and> 0 \<le> harshAccelerations (drivingBehavior (window_trip 400 120 60))
   \<and> 0 \<le> harshBraking (drivingBehavior (window_trip 400 120 60))
   \<and> 0 \<le> idleTime (drivingBehavior (window_trip 400 120 60))
   \<and> calculateEfficiencyImprovement (window_trip 400 120 60) = 30"
  using calculateEfficiencyImprovement_bounds [of "window_trip 2 120 60"]
    calculateEfficiencyImprovement_bounds [of "window_trip 400 120 60"]
  by (simp add: window_trip_def quiet_trip_def)

section \<open>Facts about the models and the analyzers\<close>















lemma extract_lengths:
  "length (extractEfficiencyFeatures t) = 10"
  "length (extractBehaviorFeatures t) = 8"
  "length (extractRouteFeatures t) = 6"
  by (simp_all add: extractEfficiencyFeatures_def extractBehaviorFeatures_def
      extractRouteFeatures_def)

lemma analyzeEfficiency_total: "\<exists>r. analyzeEfficiency svc t = Inr r"
  by (simp add: analyzeEfficiency_def split: sum.split)

lemma analyzeBehavior_total: "\<exists>r. analyzeBehavior svc t = Inr r"
  by (simp add: analyzeBehavior_def split: sum.split)

lemma analyzeRoute_total: "\<exists>r. analyzeRoute svc t = Inr r"
  by (simp add: analyzeRoute_def split: sum.split)

lemma dense_one: "dense (Suc 0) act w h = activate act [weighted_sum w h 0]"
  by (simp add: dense_def)

lemma predict_route_loaded:
  assumes "length x = 6"
  shows "\<exists>z. predict (loadRouteOptimizationModel w1 w2 w3) x = Inr [1 / (1 + exp (- z))]"
  using assms by (auto simp: predict_def loadRouteOptimizationModel_def dense_one)

lemma predict_efficiency_loaded:
  assumes "length x = 10"
  shows "\<exists>z. predict (loadEfficiencyModel w1 w2 w3) x = Inr [z]"
  using assms by (simp add: predict_def loadEfficiencyModel_def dense_one)

lemma predict_behavior_loaded:
  assumes "length x = 8"
  shows "\<exists>zs. zs \<noteq> [] \<and> predict (loadBehaviorModel w1 w2 w3) x = Inr (activate Softmax zs)"
proof -
  let ?zs = "map (weighted_sum w3 (dense 16 Relu w2 (dense 32 Relu w1 x))) [0..<4]"
  have "predict (loadBehaviorModel w1 w2 w3) x = Inr (activate Softmax ?zs)"
    using assms by (simp add: predict_def loadBehaviorModel_def dense_def [of 4])
  moreover have "?zs \<noteq> []" by simp
  ultimately show ?thesis by blast
qed


section \<open>The analyzers: the claims\<close>




lemma analyzeEfficiency_try_loaded: "\<exists>r. analyzeEfficiency_try (initialize ws svc) t = Inr r"
proof -
  have "\<exists>z. predict (loadEfficiencyModel (efficiency1 ws) (efficiency2 ws) (efficiency3 ws))
      (extractEfficiencyFeatures t) = Inr [z]"
    by (rule predict_efficiency_loaded) (rule extract_lengths)
  then show ?thesis
    by (auto simp: analyzeEfficiency_try_def initialize_def model_predict_def)
qed

lemma analyzeBehavior_try_loaded: "\<exists>r. analyzeBehavior_try (initialize ws svc) t = Inr r"
proof -
  have "\<exists>zs. zs \<noteq> [] \<and> predict (loadBehaviorModel (behavior1 ws) (behavior2 ws) (behavior3 ws))
      (extractBehaviorFeatures t) = Inr (activate Softmax zs)"
    by (rule predict_behavior_loaded) (rule extract_lengths)
  then show ?thesis
    by (auto simp: analyzeBehavior_try_def initialize_def model_predict_def Let_def
        simp del: activate.simps)
qed

lemma analyzeRoute_try_loaded: "\<exists>r. analyzeRoute_try (initialize ws svc) t = Inr r"
proof -
  have "\<exists>z. predict (loadRouteOptimizationModel (route1 ws) (route2 ws) (route3 ws))
      (extractRouteFeatures t) = Inr [1 / (1 + exp (- z))]"
    by (rule predict_route_loaded) (rule extract_lengths)
  then show ?thesis
    by (auto simp: analyzeRoute_try_def initialize_def model_predict_def)
qed

text \<open>
  C5. When the \<open>try\<close> block of an analyzer fails with any error, the analyzer returns its
  neutral result instead of the error: score 0 (no factors, improvement 0) for the
  efficiency, \<open>moderate\<close> with confidence 0.5 for the behaviour, efficiency 50 for the
  route. No analyzer ever throws. A prediction fails on a vector whose length is not the
  declared input shape and succeeds on every vector of that length; with the models
  loaded, the \<open>try\<close> block of each analyzer succeeds on every trip.
\<close>

theorem analyzers_degrade_to_defaults:
  "(analyzeEfficiency_try svc t = Inl e \<longrightarrow>
      analyzeEfficiency svc t = Inr \<lparr>score = Fin 0, factors = [], improvement = 0\<rparr>)
   \<and> (analyzeBehavior_try svc t = Inl e \<longrightarrow>
      analyzeBehavior svc t =
        Inr \<lparr>behavior_type = Some ''moderate'', confidence = Some (5 / 10), details = []\<rparr>)
   \<and> (analyzeRoute_try svc t = Inl e \<longrightarrow>
      analyzeRoute svc t = Inr \<lparr>route_efficiency = Fin 50, optimization = [], alternatives = []\<rparr>)
   \<and> (\<exists>r. analyzeEfficiency svc t = Inr r)
   \<and> (\<exists>r. analyzeBehavior svc t = Inr r)
   \<and> (\<exists>r. analyzeRoute svc t = Inr r)
   \<and> (length x \<noteq> inputShape m \<longrightarrow> predict m x = Inl ValueError)
   \<and> (length x = inputShape m \<longrightarrow> (\<exists>y. predict m x = Inr y))
   \<and> (\<exists>r. analyzeEfficiency_try (initialize ws svc) t = Inr r)
   \<and> (\<exists>r. analyzeBehavior_try (initialize ws svc) t = Inr r)
   \<and> (\<exists>r. analyzeRoute_try (initialize ws svc) t = Inr r)"
  using analyzeEfficiency_total [of svc t] analyzeBehavior_total [of svc t]
    analyzeRoute_total [of svc t] analyzeEfficiency_try_loaded [of ws svc t]
    analyzeBehavior_try_loaded [of ws svc t] analyzeRoute_try_loaded [of ws svc t]
  by (simp add: analyzeEfficiency_def analyzeBehavior_def analyzeRoute_def predict_def)

theorem analyzers_degrade_to_defaults_witness:
  "analyzeEfficiency_try new_service quiet_trip = Inl TypeError
   \<and> analyzeEfficiency new_service quiet_trip = Inr \<lparr>score = Fin 0, factors = [], improvement = 0\<rparr>
   \<and> analyzeBehavior_try new_service quiet_trip = Inl TypeError
   \<and> analyzeBehavior new_service quiet_trip =
        Inr \<lparr>behavior_type = Some ''moderate'', confidence = Some (5 / 10), details = []\<rparr>
   \<and> analyzeRoute_try new_service quiet_trip = Inl TypeError
   \<and> analyzeRoute new_service quiet_trip =
        Inr \<lparr>route_efficiency = Fin 50, optimization = [], alternatives = []\<rparr>
   \<and> length [1, 2, 3 :: real]
        \<noteq> inputShape (loadEfficiencyModel (single_path 0) (single_path 0) (single_path 0))
   \<and> predict (loadEfficiencyModel (single_path 0) (single_path 0) (single_path 0)) [1, 2, 3]
        = Inl ValueError
   \<and> length (extractEfficiencyFeatures quiet_trip)
        = inputShape (loadEfficiencyModel (single_path 0) (single_path 0) (single_path 0))
   \<and> (\<exists>y. predict (loadEfficiencyModel (single_path 0) (single_path 0) (single_path 0))
              (extractEfficiencyFeatures quiet_trip) = Inr y)"
  using analyzers_degrade_to_defaults [of new_service quiet_trip TypeError "[1, 2, 3]"
      "loadEfficiencyModel (single_path 0) (single_path 0) (single_path 0)"]
    analyzers_degrade_to_defaults [of new_service quiet_trip TypeError
      "extractEfficiencyFeatures quiet_trip"
      "loadEfficiencyModel (single_path 0) (single_path 0) (single_path 0)"]
  by (simp add: analyzeEfficiency_try_def analyzeBehavior_try_def analyzeRoute_try_def
      new_service_def model_predict_def loadEfficiencyModel_def extractEfficiencyFeatures_def)

section \<open>The route that analyses a trip: the claims\<close>

lemma analyzeTrip_recommendations:
  "generateRecommendations found = Inr recs \<Longrightarrow>
     \<exists>an. fst (analyzeTrip ws svc found t) = Inr an \<and> recommendations an = recs"
proof -
  assume g: "generateRecommendations found = Inr recs"
  let ?svc = "if \<not> isInitialized svc then initialize ws svc else svc"
  obtain e where e: "analyzeEfficiency ?svc t = Inr e" using analyzeEfficiency_total by blast
  obtain b where b: "analyzeBehavior ?svc t = Inr b" using analyzeBehavior_total by blast
  obtain r where r: "analyzeRoute ?svc t = Inr r" using analyzeRoute_total by blast
  show ?thesis unfolding analyzeTrip_def Let_def using e b r g by simp
qed

lemma analyzeTrip_rejected:
  "generateRecommendations found = Inl e \<Longrightarrow> fst (analyzeTrip ws svc found t) = Inl e"
proof -
  assume g: "generateRecommendations found = Inl e"
  let ?svc = "if \<not> isInitialized svc then initialize ws svc else svc"
  obtain ef where ef: "analyzeEfficiency ?svc t = Inr ef" using analyzeEfficiency_total by blast
  obtain b where b: "analyzeBehavior ?svc t = Inr b" using analyzeBehavior_total by blast
  obtain r where r: "analyzeRoute ?svc t = Inr r" using analyzeRoute_total by blast
  show ?thesis unfolding analyzeTrip_def Let_def using ef b r g by simp
qed

lemma analyzeTrip_service:
  "snd (analyzeTrip ws svc found t) = (if \<not> isInitialized svc then initialize ws svc else svc)"
  by (simp add: analyzeTrip_def Let_def)

lemma analyze_trip_route_ok:
  assumes "isMongoId tripId" "findOne store tripId uid = Some t"
    "generateRecommendations found = Inr recs"
  shows "analyze_trip_route isMongoId ws now found (svc, store) tripId uid =
           (200, (if \<not> isInitialized svc then initialize ws svc else svc),
            store(tripId \<mapsto> t\<lparr>insights := map (insight_of now) recs\<rparr>))"
proof -
  from analyzeTrip_recommendations [OF assms(3), of ws svc t] obtain an where
    an: "fst (analyzeTrip ws svc found t) = Inr an" "recommendations an = recs" by blast
  have "analyzeTrip ws svc found t =
          (Inr an, if \<not> isInitialized svc then initialize ws svc else svc)"
    using an(1) analyzeTrip_service [of ws svc found t] by (metis prod.collapse)
  then show ?thesis
    using assms(1,2) an(2) by (simp add: analyze_trip_route_def)
qed

text \<open>
  C9, as the code has it: the route changes no stored trip but the analysed one, and
  changes nothing unless it answers 200; then the stored trip is the trip found with its
  insights field assigned the insights made from the recommendations of this analysis,
  one for each, in order. Every other field is as before; the insights recorded before
  are not kept.
\<close>

theorem analyze_trip_route_frame:
  assumes "analyze_trip_route isMongoId ws now found (svc, store) tripId uid
             = (status, svc', store')"
  shows "(\<forall>k. k \<noteq> tripId \<longrightarrow> store' k = store k)
     \<and> (status \<noteq> 200 \<longrightarrow> store' = store)
     \<and> (status = 200 \<longrightarrow>
          (\<exists>t recs. store tripId = Some t \<and> userId t = uid
             \<and> generateRecommendations found = Inr recs
             \<and> store' tripId = Some (t\<lparr>insights := map (insight_of now) recs\<rparr>)))"
proof (cases "isMongoId tripId")
  case False
  with assms show ?thesis by (simp add: analyze_trip_route_def)
next
  case valid: True
  show ?thesis
  proof (cases "findOne store tripId uid")
    case None
    with assms valid show ?thesis by (simp add: analyze_trip_route_def)
  next
    case (Some t)
    then have t: "store tripId = Some t" "userId t = uid"
      by (auto simp: findOne_def split: option.splits if_splits)
    show ?thesis
    proof (cases "generateRecommendations found")
      case (Inl e)
      then have "fst (analyzeTrip ws svc found t) = Inl e"
        by (rule analyzeTrip_rejected)
      then obtain s where "analyzeTrip ws svc found t = (Inl e, s)" by (metis prod.collapse)
      with assms valid Some show ?thesis by (simp add: analyze_trip_route_def)
    next
      case (Inr recs)
      from analyze_trip_route_ok [where isMongoId = isMongoId and tripId = tripId,
          OF valid Some Inr, of ws now svc] assms
      have "status = 200" "store' = store(tripId \<mapsto> t\<lparr>insights := map (insight_of now) recs\<rparr>)"
        by simp_all
      with t Inr show ?thesis by simp
    qed
  qed
qed

text \<open>
  C9. The claim: an analysis only appends insights, never removing or replacing those
  recorded. A trip holding one insight, analysed over an empty window, is saved with no
  insight at all.
\<close>

theorem analyze_trip_route_replaces_insights:
  "map_option insights (example_store ''t1'') = Some [old_insight]
   \<and> analyze_trip_route accept_all (example_weights 0) 7 (Inr []) (new_service, example_store)
       ''t1'' ''u1''
     = (200, initialize (example_weights 0) new_service,
        example_store(''t1'' \<mapsto> quiet_trip\<lparr>insights := []\<rparr>))"
proof -
  have g: "generateRecommendations (Inr []) = Inr []"
    by (simp add: generateRecommendations_def reduce_sum_def)
  have f: "findOne example_store ''t1'' ''u1'' = Some (quiet_trip\<lparr>insights := [old_insight]\<rparr>)"
    by (simp add: findOne_def example_store_def quiet_trip_def)
  have a: "accept_all ''t1''" by (simp add: accept_all_def)
  show ?thesis
    using analyze_trip_route_ok [where isMongoId = accept_all and tripId = "''t1''", OF a f g,
        of "example_weights 0" 7 new_service]
    by (simp add: example_store_def new_service_def)
qed

theorem analyze_trip_route_frame_witness:
  "analyze_trip_route accept_all (example_weights 0) 7 (Inr [window_trip 5 80 60])
       (new_service, example_store) ''t1'' ''u1''
     = (200, initialize (example_weights 0) new_service,
        example_store(''t1'' \<mapsto> quiet_trip\<lparr>insights :=
          [\<lparr>ins_type = ''acceleration'',
            message = ''Reduce harsh accelerations to improve fuel efficiency by up to 15%'',
            impact = ''positive'', fuelSavings = Fin (1 / 2), co2Savings = Fin (5 / 4),
            timestamp = 7\<rparr>]\<rparr>))
   \<and> (\<exists>t recs. example_store ''t1'' = Some t \<and> userId t = ''u1''
         \<and> generateRecommendations (Inr [window_trip 5 80 60]) = Inr recs
         \<and> (example_store(''t1'' \<mapsto> quiet_trip\<lparr>insights :=
          [\<lparr>ins_type = ''acceleration'',
            message = ''Reduce harsh accelerations to improve fuel efficiency by up to 15%'',
            impact = ''positive'', fuelSavings = Fin (1 / 2), co2Savings = Fin (5 / 4),
            timestamp = 7\<rparr>]\<rparr>)) ''t1'' = Some (t\<lparr>insights := map (insight_of 7) recs\<rparr>))"
proof -
  let ?new = "[\<lparr>ins_type = ''acceleration'',
            message = ''Reduce harsh accelerations to improve fuel efficiency by up to 15%'',
            impact = ''positive'', fuelSavings = Fin (1 / 2), co2Savings = Fin (5 / 4),
            timestamp = 7\<rparr>]"
  obtain recs where g: "generateRecommendations (Inr [window_trip 5 80 60]) = Inr recs"
    and m: "map (insight_of 7) recs = ?new"
    by (simp add: generateRecommendations_def Let_def reduce_sum_def window_trip_def
        quiet_trip_def insight_of_def)
  have f: "findOne example_store ''t1'' ''u1'' = Some (quiet_trip\<lparr>insights := [old_insight]\<rparr>)"
    by (simp add: findOne_def example_store_def quiet_trip_def)
  have a: "accept_all ''t1''" by (simp add: accept_all_def)
  have run: "analyze_trip_route accept_all (example_weights 0) 7 (Inr [window_trip 5 80 60])
       (new_service, example_store) ''t1'' ''u1''
     = (200, initialize (example_weights 0) new_service,
        example_store(''t1'' \<mapsto> quiet_trip\<lparr>insights := ?new\<rparr>))"
    using analyze_trip_route_ok [where isMongoId = accept_all and tripId = "''t1''", OF a f g,
        of "example_weights 0" 7 new_service] m
    by (simp add: new_service_def)
  from analyze_trip_route_frame [OF run] have
    "\<exists>t recs. example_store ''t1'' = Some t \<and> userId t = ''u1''
         \<and> generateRecommendations (Inr [window_trip 5 80 60]) = Inr recs
         \<and> (example_store(''t1'' \<mapsto> quiet_trip\<lparr>insights := ?new\<rparr>)) ''t1''
             = Some (t\<lparr>insights := map (insight_of 7) recs\<rparr>)"
    by simp
  with run show ?thesis by simp
qed

end
